theory Spec2Isabelle
  imports Complex_Main "HOL-Library.Sublist"
begin

section \<open>Python strings\<close>

text \<open>
  A Python \<open>str\<close> is a sequence of code points. The model covers the code points
  below 256, one \<^typ>\<open>char\<close> each, so that \<open>len\<close> is \<^const>\<open>length\<close>; the degree sign
  of the temperature texts is \<open>CHR 0xB0\<close>.
\<close>

definition whitespace :: "char list" where
  "whitespace = [CHR 0x09, CHR 0x0A, CHR 0x0B, CHR 0x0C, CHR 0x0D, CHR 0x1C, CHR 0x1D,
                 CHR 0x1E, CHR 0x1F, CHR 0x20, CHR 0x85, CHR 0xA0]"

definition isspace :: "char \<Rightarrow> bool" where
  "isspace c = (c \<in> set whitespace)"

text \<open>\<open>s.strip()\<close>: leading and trailing whitespace removed.\<close>

definition strip :: "string \<Rightarrow> string" where
  "strip s = rev (dropWhile isspace (rev (dropWhile isspace s)))"

text \<open>
  \<open>s[a:b]\<close> for integers \<open>a\<close>, \<open>b\<close>: a negative bound counts from the end, both bounds
  are clamped to \<open>0 .. len(s)\<close>, and the slice is empty when the bounds cross.
\<close>

definition py_slice :: "'a list \<Rightarrow> int \<Rightarrow> int \<Rightarrow> 'a list" where
  "py_slice s a b =
     (let n = int (length s);
          a' = (if a < 0 then max (a + n) 0 else min a n);
          b' = (if b < 0 then max (b + n) 0 else min b n)
      in take (nat (b' - a')) (drop (nat a') s))"

text \<open>
  \<open>s.rfind(c)\<close> for a one-character \<open>c\<close>: the highest index holding \<open>c\<close>, or \<open>-1\<close>.
  \<open>rfind_from i s c\<close> searches \<open>s\<close> whose first element has index \<open>i\<close>.
\<close>

primrec rfind_from :: "int \<Rightarrow> 'a list \<Rightarrow> 'a \<Rightarrow> int" where
  "rfind_from i [] c = -1"
| "rfind_from i (x # xs) c =
     (let r = rfind_from (i + 1) xs c
      in if 0 \<le> r then r else if x = c then i else -1)"

definition rfind :: "'a list \<Rightarrow> 'a \<Rightarrow> int" where
  "rfind s c = rfind_from 0 s c"

text \<open>\<open>s.lower()\<close> on the modelled code points: A-Z and the accented capitals of Latin-1.\<close>

definition uppercase :: string where
  "uppercase = ''ABCDEFGHIJKLMNOPQRSTUVWXYZ'' @
       [CHR 0xC0, CHR 0xC1, CHR 0xC2, CHR 0xC3, CHR 0xC4, CHR 0xC5, CHR 0xC6, CHR 0xC7,
        CHR 0xC8, CHR 0xC9, CHR 0xCA, CHR 0xCB, CHR 0xCC, CHR 0xCD, CHR 0xCE, CHR 0xCF,
        CHR 0xD0, CHR 0xD1, CHR 0xD2, CHR 0xD3, CHR 0xD4, CHR 0xD5, CHR 0xD6, CHR 0xD8,
        CHR 0xD9, CHR 0xDA, CHR 0xDB, CHR 0xDC, CHR 0xDD, CHR 0xDE]"

definition lowercase :: string where
  "lowercase = ''abcdefghijklmnopqrstuvwxyz'' @
       [CHR 0xE0, CHR 0xE1, CHR 0xE2, CHR 0xE3, CHR 0xE4, CHR 0xE5, CHR 0xE6, CHR 0xE7,
        CHR 0xE8, CHR 0xE9, CHR 0xEA, CHR 0xEB, CHR 0xEC, CHR 0xED, CHR 0xEE, CHR 0xEF,
        CHR 0xF0, CHR 0xF1, CHR 0xF2, CHR 0xF3, CHR 0xF4, CHR 0xF5, CHR 0xF6, CHR 0xF8,
        CHR 0xF9, CHR 0xFA, CHR 0xFB, CHR 0xFC, CHR 0xFD, CHR 0xFE]"

definition lower_char :: "char \<Rightarrow> char" where
  "lower_char c = (case map_of (zip uppercase lowercase) c of None \<Rightarrow> c | Some l \<Rightarrow> l)"

definition lower :: "string \<Rightarrow> string" where
  "lower s = map lower_char s"

text \<open>\<open>s.replace(c, r)\<close> for a one-character \<open>c\<close>.\<close>

definition replace :: "char \<Rightarrow> string \<Rightarrow> string \<Rightarrow> string" where
  "replace c r s = concat (map (\<lambda>x. if x = c then r else [x]) s)"

text \<open>\<open>sep.join(parts)\<close> on strings.\<close>

fun join :: "string \<Rightarrow> string list \<Rightarrow> string" where
  "join sep [] = []"
| "join sep [x] = x"
| "join sep (x # y # ys) = x @ sep @ join sep (y # ys)"

text \<open>\<open>s.split()\<close>: the maximal runs of non-whitespace; \<open>w\<close> is the word being read.\<close>

fun split_from :: "string \<Rightarrow> string \<Rightarrow> string list" where
  "split_from w [] = (if w = [] then [] else [w])"
| "split_from w (c # cs) =
     (if isspace c then (if w = [] then [] else [w]) @ split_from [] cs
      else split_from (w @ [c]) cs)"

definition split :: "string \<Rightarrow> string list" where
  "split s = split_from [] s"

definition endswith :: "string \<Rightarrow> string \<Rightarrow> bool" where
  "endswith s suf = (length suf \<le> length s \<and> drop (length s - length suf) s = suf)"

text \<open>The two characters \<open>\<degree>C\<close> that follow every formatted temperature.\<close>

definition degC :: string where
  "degC = [CHR 0xB0, CHR ''C'']"

section \<open>Python values\<close>

text \<open>
  The values a dataset record holds: \<open>None\<close>, a string, or a float. A finite float is
  modelled by the rational number it denotes, NaN (what pandas puts in an empty cell)
  by its own constructor. Integers, booleans, infinities, the negative zero \<open>-0.0\<close>
  (which \<open>.2f\<close> prints as \<open>-0.00\<close>) and nested JSON values are outside the model.
\<close>

datatype pyval = PNone | PStr string | PFloat rat | PNaN

datatype error =
  ValueError | TypeError | AttributeError | IndexError | RuntimeError | AssertionError

type_synonym pydict = "string \<rightharpoonup> pyval"

text \<open>\<open>d.get(key, dflt)\<close>.\<close>

definition dict_get :: "pydict \<Rightarrow> string \<Rightarrow> pyval \<Rightarrow> pyval" where
  "dict_get d key dflt = (case d key of None \<Rightarrow> dflt | Some v \<Rightarrow> v)"

text \<open>Truth value of a value in a condition: \<open>None\<close>, \<open>""\<close> and \<open>0.0\<close> are false.\<close>

fun truthy :: "pyval \<Rightarrow> bool" where
  "truthy PNone = False"
| "truthy (PStr s) = (s \<noteq> [])"
| "truthy (PFloat x) = (x \<noteq> 0)"
| "truthy PNaN = True"

text \<open>Truth value of an optional string argument (\<open>None\<close> and \<open>""\<close> are false).\<close>

fun given :: "string option \<Rightarrow> bool" where
  "given None = False"
| "given (Some s) = (s \<noteq> [])"

text \<open>
  \<open>str(v)\<close>, also what an f-string puts for \<open>{v}\<close>. The digits Python prints for a
  finite float (its \<open>repr\<close>, as in \<open>'12.5'\<close>) are not modelled: \<open>frepr\<close> supplies them.
\<close>

fun py_str :: "(rat \<Rightarrow> string) \<Rightarrow> pyval \<Rightarrow> string" where
  "py_str frepr PNone = ''None''"
| "py_str frepr (PStr s) = s"
| "py_str frepr (PFloat x) = frepr x"
| "py_str frepr PNaN = ''nan''"

text \<open>
  The test \<open>str(v) == 'nan'\<close>. The text of a finite float consists of digits, a sign, a
  point and an exponent, so the test holds for NaN and for the string \<open>'nan'\<close> only.
\<close>

fun str_is_nan :: "pyval \<Rightarrow> bool" where
  "str_is_nan PNaN = True"
| "str_is_nan (PStr s) = (s = ''nan'')"
| "str_is_nan v = False"

text \<open>\<open>a == b\<close>: NaN is equal to nothing, itself included.\<close>

definition py_eq :: "pyval \<Rightarrow> pyval \<Rightarrow> bool" where
  "py_eq a b = (a = b \<and> a \<noteq> PNaN)"

subsection \<open>The format \<open>.2f\<close>\<close>

text \<open>
  Python prints the exact value of the float rounded to two decimals, an exact tie
  going to the even digit (\<open>'%.2f' % 0.125 = '0.12'\<close>), and keeps the sign of a negative
  value that rounds to zero.
\<close>

definition round_half_even :: "rat \<Rightarrow> int" where
  "round_half_even x =
     (let f = \<lfloor>x\<rfloor>; r = x - of_int f
      in if r < 1 / 2 then f else if 1 / 2 < r then f + 1
         else if even f then f else f + 1)"

definition digit :: "nat \<Rightarrow> char" where
  "digit n = ''0123456789'' ! (n mod 10)"

fun show_nat :: "nat \<Rightarrow> string" where
  "show_nat n = (if n < 10 then [digit n] else show_nat (n div 10) @ [digit (n mod 10)])"

declare show_nat.simps [simp del]

definition fmt2f :: "rat \<Rightarrow> string" where
  "fmt2f x =
     (let n = nat (round_half_even (\<bar>x\<bar> * 100))
      in (if x < 0 then ''-'' else []) @ show_nat (n div 100) @ ''.'' @
         [digit (n div 10), digit n])"

text \<open>\<open>f"{v:.2f}"\<close>: a string has no format code \<open>f\<close>, \<open>None\<close> no format at all.\<close>

fun format_2f :: "pyval \<Rightarrow> error + string" where
  "format_2f (PFloat x) = Inr (fmt2f x)"
| "format_2f PNaN = Inr ''nan''"
| "format_2f (PStr s) = Inl ValueError"
| "format_2f PNone = Inl TypeError"

section \<open>The chunker: \<open>RAGSystem._chunk_text\<close>\<close>

text \<open>
  One pass of the loop body for the window starting at \<open>start\<close>: the chunk before
  stripping, and \<open>end\<close>. The test \<open>break_point > chunk_size * 0.5\<close> compares an integer
  with half an integer, which is \<open>2 * break_point > chunk_size\<close>.
\<close>

definition chunk_window :: "string \<Rightarrow> int \<Rightarrow> int \<Rightarrow> string \<times> int" where
  "chunk_window text chunk_size start =
     (let endpos = start + chunk_size;
          chunk = py_slice text start endpos
      in if endpos < int (length text) then
           (let last_period = rfind chunk (CHR ''.'');
                last_newline = rfind chunk (CHR 0x0A);
                break_point = max last_period last_newline
            in if 2 * break_point > chunk_size
               then (py_slice chunk 0 (break_point + 1), start + break_point + 1)
               else (chunk, endpos))
         else (chunk, endpos))"

text \<open>
  The \<open>while start < len(text)\<close> loop. It has no bound of its own, so the model is a
  partial function: \<open>None\<close> is the loop that never exits, \<open>Some chunks\<close> the list returned.
\<close>

partial_function (option) chunk_loop ::
  "string \<Rightarrow> int \<Rightarrow> int \<Rightarrow> int \<Rightarrow> string list \<Rightarrow> string list option" where
  "chunk_loop text chunk_size chunk_overlap start chunks =
     (if start < int (length text) then
        (case chunk_window text chunk_size start of
           (chunk, endpos) \<Rightarrow>
             chunk_loop text chunk_size chunk_overlap (endpos - chunk_overlap)
               (chunks @ [strip chunk]))
      else Some chunks)"

definition chunk_text :: "string \<Rightarrow> int \<Rightarrow> int \<Rightarrow> string list option" where
  "chunk_text text chunk_size chunk_overlap = chunk_loop text chunk_size chunk_overlap 0 []"

section \<open>The record normalizer: \<open>RAGSystem._create_text_from_csv_record\<close>\<close>

text \<open>
  \<open>" ".join(text_parts) if text_parts else ""\<close>, where \<open>text_parts\<close> may hold a value
  that is not a string (the headline branch appends \<open>content\<close> as it is): \<open>join\<close> then
  raises \<open>TypeError\<close>.
\<close>

fun strings_of :: "pyval list \<Rightarrow> string list option" where
  "strings_of [] = Some []"
| "strings_of (PStr s # vs) = map_option ((#) s) (strings_of vs)"
| "strings_of (v # vs) = None"

definition join_parts :: "pyval list \<Rightarrow> error + pyval" where
  "join_parts text_parts =
     (if text_parts = [] then Inr (PStr [])
      else case strings_of text_parts of
             None \<Rightarrow> Inl TypeError
           | Some ss \<Rightarrow> Inr (PStr (join '' '' ss)))"

text \<open>The news-style branch (a record with a \<open>Headline\<close> or \<open>Content\<close> field).\<close>

definition headline_text :: "(rat \<Rightarrow> string) \<Rightarrow> pydict \<Rightarrow> error + pyval" where
  "headline_text frepr record =
     (let headline = dict_get record ''Headline'' (PStr []);
          content = dict_get record ''Content'' (PStr []);
          sentiment = dict_get record ''Sentiment'' (PStr []);
          justification = dict_get record ''Justification'' (PStr []);
          text_parts =
            (if truthy headline
             then [PStr (''Climate news headline: '' @ py_str frepr headline)] else []) @
            (if truthy content then [content]
             else if truthy headline then [headline] else []) @
            (if truthy sentiment
             then [PStr (''Sentiment analysis: '' @ py_str frepr sentiment)] else []) @
            (if truthy justification
             then [PStr (''Context: '' @ py_str frepr justification)] else [])
      in join_parts text_parts)"

text \<open>
  One of the four temperature sentences of the generic branch:
  \<open>if key in record: temp = record.get(key); if temp is not None and str(temp) != 'nan':
  text_parts.append(f"<label>: {temp:.2f}\<degree>C.")\<close>.
\<close>

definition temperature_part :: "pydict \<Rightarrow> string \<Rightarrow> string \<Rightarrow> error + string list" where
  "temperature_part record key label =
     (if key \<in> dom record then
        (let temp = dict_get record key PNone
         in if temp \<noteq> PNone \<and> \<not> str_is_nan temp then
              (case format_2f temp of
                 Inl e \<Rightarrow> Inl e
               | Inr t \<Rightarrow> Inr [label @ '': '' @ t @ degC @ ''.''])
            else Inr [])
      else Inr [])"

text \<open>The generic climate branch, its statements in the order of the source.\<close>

definition climate_text :: "(rat \<Rightarrow> string) \<Rightarrow> pydict \<Rightarrow> string \<Rightarrow> error + pyval" where
  "climate_text frepr record text_column =
     (let country_part =
            (if ''Country'' \<in> dom record
             then [''Climate data for '' @ py_str frepr (the (record ''Country'')) @ '':'']
             else [])
      in case temperature_part record ''AverageTemperature'' ''Average temperature'' of
           Inl e \<Rightarrow> Inl e
         | Inr average_part \<Rightarrow>
      (let date_part =
             (if ''dt'' \<in> dom record \<and> truthy (dict_get record ''dt'' PNone)
              then [''Date: '' @ py_str frepr (the (record ''dt'')) @ ''.'']
              else [])
       in case temperature_part record ''AverageTemperatureUncertainty''
                 ''Temperature uncertainty'' of
            Inl e \<Rightarrow> Inl e
          | Inr uncertainty_part \<Rightarrow>
       (case temperature_part record ''LandAverageTemperature''
                 ''Global land average temperature'' of
            Inl e \<Rightarrow> Inl e
          | Inr land_part \<Rightarrow>
       (case temperature_part record ''LandAndOceanAverageTemperature''
                 ''Global land and ocean average temperature'' of
            Inl e \<Rightarrow> Inl e
          | Inr ocean_part \<Rightarrow>
       (let text_parts = country_part @ average_part @ date_part @ uncertainty_part @
                         land_part @ ocean_part
        in if text_column \<noteq> [] \<and> text_column \<in> dom record \<and>
              truthy (dict_get record text_column PNone)
           then Inr (PStr (py_str frepr (dict_get record text_column PNone)))
           else join_parts (map PStr text_parts))))))"

definition create_text_from_csv_record ::
  "(rat \<Rightarrow> string) \<Rightarrow> pydict \<Rightarrow> string \<Rightarrow> error + pyval" where
  "create_text_from_csv_record frepr record text_column =
     (if ''text'' \<in> dom record then Inr (dict_get record ''text'' (PStr []))
      else if ''Headline'' \<in> dom record \<or> ''Content'' \<in> dom record
           then headline_text frepr record
      else climate_text frepr record text_column)"

section \<open>The retrieval store\<close>

text \<open>
  FAISS's \<open>IndexFlatL2\<close> is a library, modelled by what it stores: its dimension and
  the vectors added so far, in insertion order; \<open>ntotal\<close> is their number. The embedder
  (\<open>_embed_text\<close>) is a parameter \<open>embed_text\<close> from texts to vectors of any type \<open>'v\<close>;
  its vectors are taken to have the dimension of the index, as they have in a store
  that \<open>__init__\<close> made, so that the assertion on the dimension in \<open>add\<close> and \<open>search\<close>
  holds.
\<close>

record 'v index_flat =
  idx_d :: int
  idx_vectors :: "'v list"

definition ntotal :: "'v index_flat \<Rightarrow> nat" where
  "ntotal idx = length (idx_vectors idx)"

text \<open>
  \<open>index.add(vectors)\<close> appends the vectors. The array \<open>np.array([])\<close> of an empty batch
  has one axis only, and \<open>add\<close> raises \<open>ValueError\<close> when it reads its shape.
\<close>

definition index_add :: "'v index_flat \<Rightarrow> 'v list \<Rightarrow> error + 'v index_flat" where
  "index_add idx vs =
     (if vs = [] then Inl ValueError
      else Inr (idx\<lparr>idx_vectors := idx_vectors idx @ vs\<rparr>))"

text \<open>
  \<open>index.search(q, k)\<close> asserts \<open>k > 0\<close> and returns exactly \<open>k\<close> pairs (distance,
  position): the stored vectors nearest to \<open>q\<close> by ascending distance, equal distances
  by position, and, when fewer than \<open>k\<close> vectors are stored, the position \<open>-1\<close> with the
  distance \<open>far\<close> (the largest float) for each missing neighbour. The distance is a
  parameter \<open>metric\<close> into any linear order, and \<open>far\<close> a value of that order.
\<close>

definition index_search ::
  "('v \<Rightarrow> 'v \<Rightarrow> 'd::linorder) \<Rightarrow> 'd \<Rightarrow> 'v index_flat \<Rightarrow> 'v \<Rightarrow> int \<Rightarrow>
   error + ('d \<times> int) list" where
  "index_search metric far idx q k =
     (if k \<le> 0 then Inl AssertionError
      else (let found = take (nat k)
                  (sort_key fst
                     (map (\<lambda>i. (metric q (idx_vectors idx ! i), int i)) [0..<ntotal idx]))
            in Inr (found @ replicate (nat k - length found) (far, - 1))))"

text \<open>
  \<open>xs[i]\<close> for an integer \<open>i\<close>: a negative index counts from the end, and an index
  outside the list raises \<open>IndexError\<close>.
\<close>

definition py_index :: "'a list \<Rightarrow> int \<Rightarrow> error + 'a" where
  "py_index xs i =
     (if int (length xs) \<le> i \<or> i < - int (length xs) then Inl IndexError
      else Inr (xs ! nat (if 0 \<le> i then i else i + int (length xs))))"

record 'v rag_system =
  embedding_model_name :: string
  dimension :: int
  index :: "'v index_flat"
  documents :: "string list"
  metadata :: "pydict list"

text \<open>The state \<open>__init__\<close> leaves, for an embedding model of dimension \<open>model_dim\<close>.\<close>

definition rag_init :: "string \<Rightarrow> int \<Rightarrow> 'v rag_system" where
  "rag_init embedding_model model_dim =
     \<lparr>embedding_model_name = embedding_model, dimension = model_dim,
      index = \<lparr>idx_d = model_dim, idx_vectors = []\<rparr>, documents = [], metadata = []\<rparr>"

subsection \<open>\<open>RAGSystem.add_documents\<close>\<close>

definition add_documents ::
  "(string \<Rightarrow> 'v) \<Rightarrow> 'v rag_system \<Rightarrow> string list \<Rightarrow> pydict list option \<Rightarrow>
   error + 'v rag_system" where
  "add_documents embed_text s docs metadata_arg =
     (let metas = (case metadata_arg of
                     None \<Rightarrow> replicate (length docs) Map.empty
                   | Some m \<Rightarrow> m)
      in if length docs \<noteq> length metas then Inl ValueError
         else (let embeddings = map embed_text docs
               in case index_add (index s) embeddings of
                    Inl e \<Rightarrow> Inl e
                  | Inr index' \<Rightarrow>
                      Inr (s\<lparr>index := index',
                             documents := documents s @ docs,
                             metadata := metadata s @ metas\<rparr>)))"

subsection \<open>\<open>RAGSystem.load_from_dataset\<close>\<close>

text \<open>
  Reading the file (\<open>json.load\<close>, \<open>pandas.read_csv\<close>, and the aggregation of
  \<open>_process_climate_csv\<close>, which is arithmetic on floats and dates) is outside the model:
  \<open>dataset\<close> is the value of the variable \<open>dataset\<close> when the loop over the records
  starts, and the model is of the code from there on. The path itself stays, for the
  test of the extension. What is proved of \<open>load_from_dataset\<close> for every \<open>dataset\<close>
  holds of the lists the loader can produce; the loader itself produces fewer: for a
  \<open>.csv\<close> file with a \<open>Country\<close> column the records are those of
  \<open>_process_climate_csv\<close>, which all carry a \<open>text\<close> field.
\<close>

text \<open>The text of one record (the \<open>if dataset_path.endswith('.csv')\<close> statement).\<close>

definition record_text :: "(rat \<Rightarrow> string) \<Rightarrow> string \<Rightarrow> pydict \<Rightarrow> string \<Rightarrow> error + pyval" where
  "record_text frepr dataset_path record text_column =
     (if endswith dataset_path ''.csv'' then
        (if text_column \<in> dom record then
           (let text_value = dict_get record text_column PNone
            in if text_value \<noteq> PNone \<and> \<not> str_is_nan text_value \<and>
                  strip (py_str frepr text_value) \<noteq> []
               then Inr (PStr (strip (py_str frepr text_value)))
               else create_text_from_csv_record frepr record text_column)
         else create_text_from_csv_record frepr record text_column)
      else Inr (dict_get record text_column (PStr [])))"

text \<open>
  \<open>not text or text.strip() == "" or text == "nan"\<close>: whether the record is skipped.
  A float that is not zero passes \<open>not text\<close> and has no \<open>strip\<close>.
\<close>

fun skip_text :: "pyval \<Rightarrow> error + bool" where
  "skip_text PNone = Inr True"
| "skip_text (PStr s) = Inr (s = [] \<or> strip s = [] \<or> s = ''nan'')"
| "skip_text (PFloat x) = (if x = 0 then Inr True else Inl AttributeError)"
| "skip_text PNaN = Inl AttributeError"

text \<open>\<open>value.lower().replace(' ', '_').replace(',', '').replace("'", '')\<close>.\<close>

definition slug :: "string \<Rightarrow> string" where
  "slug s = replace (CHR 0x27) [] (replace (CHR '','') [] (replace (CHR '' '') ''_'' (lower s)))"

text \<open>The metadata of one chunk; it depends on the record only.\<close>

definition record_meta ::
  "(rat \<Rightarrow> string) \<Rightarrow> pydict \<Rightarrow> string \<Rightarrow> string option \<Rightarrow> string option \<Rightarrow> string option \<Rightarrow>
   pydict" where
  "record_meta frepr record text_column lesson_id_column person_id_column dataset_name =
     (let named = (given dataset_name \<and> the dataset_name \<noteq> ''default'');
          meta1 = Map.empty(''dataset_name'' \<mapsto>
                    PStr (if given dataset_name then the dataset_name else ''default''));
          meta2 =
            (if given lesson_id_column \<and> the lesson_id_column \<in> dom record then
               (let lesson_value = py_str frepr (the (record (the lesson_id_column)));
                    lesson_clean = slug lesson_value
                in meta1(''lesson_id'' \<mapsto>
                           PStr (if named then the dataset_name @ ''_'' @ lesson_clean
                                 else lesson_clean),
                         the lesson_id_column \<mapsto> PStr lesson_value))
             else if ''Country'' \<in> dom record then
               (let country = py_str frepr (the (record ''Country''));
                    country_clean = slug country
                in meta1(''lesson_id'' \<mapsto>
                           PStr (if named then the dataset_name @ ''_'' @ country_clean
                                 else ''climate_'' @ country_clean),
                         ''country'' \<mapsto> PStr country))
             else if ''dt'' \<in> dom record then
               meta1(''lesson_id'' \<mapsto>
                 PStr (''global_temp_'' @ py_str frepr (dict_get record ''dt'' (PStr ''unknown''))))
             else if ''Headline'' \<in> dom record then
               (let headline = py_str frepr (dict_get record ''Headline'' (PStr []));
                    words = take 3 (split (lower headline));
                    headline_clean =
                      take 50 (replace (CHR ''-'') ''_'' (replace (CHR 0x22) []
                        (replace (CHR 0x27) [] (replace (CHR '','') [] (join ''_'' words)))))
                in meta1(''lesson_id'' \<mapsto>
                           PStr (if named then the dataset_name @ ''_'' @ headline_clean
                                 else ''headline_'' @ headline_clean)))
             else meta1);
          meta3 =
            (if given person_id_column \<and> the person_id_column \<in> dom record
             then meta2(''person_id'' \<mapsto> the (record (the person_id_column)))
             else meta2(''person_id'' \<mapsto> PStr ''student_1''))
      in meta3 ++ record(text_column := None))"

text \<open>
  The loop \<open>for record in dataset\<close>, with \<open>documents\<close> and \<open>metadata_list\<close> as
  accumulators. \<open>None\<close>: the chunker never returned; \<open>Some (Inl e)\<close>: \<open>e\<close> was raised.
\<close>

fun process_records ::
  "(rat \<Rightarrow> string) \<Rightarrow> string \<Rightarrow> string \<Rightarrow> string option \<Rightarrow> string option \<Rightarrow> int \<Rightarrow> int \<Rightarrow>
   string option \<Rightarrow> pydict list \<Rightarrow> string list \<Rightarrow> pydict list \<Rightarrow>
   (error + string list \<times> pydict list) option" where
  "process_records frepr dataset_path text_column lesson_id_column person_id_column
     chunk_size chunk_overlap dataset_name [] docs metadata_list =
     Some (Inr (docs, metadata_list))"
| "process_records frepr dataset_path text_column lesson_id_column person_id_column
     chunk_size chunk_overlap dataset_name (record # dataset) docs metadata_list =
     (case record_text frepr dataset_path record text_column of
        Inl e \<Rightarrow> Some (Inl e)
      | Inr text \<Rightarrow>
          (case skip_text text of
             Inl e \<Rightarrow> Some (Inl e)
           | Inr True \<Rightarrow>
               process_records frepr dataset_path text_column lesson_id_column
                 person_id_column chunk_size chunk_overlap dataset_name dataset
                 docs metadata_list
           | Inr False \<Rightarrow>
               (case chunk_text (py_str frepr text) chunk_size chunk_overlap of
                  None \<Rightarrow> None
                | Some chunks \<Rightarrow>
                    process_records frepr dataset_path text_column lesson_id_column
                      person_id_column chunk_size chunk_overlap dataset_name dataset
                      (docs @ chunks)
                      (metadata_list @
                       replicate (length chunks)
                         (record_meta frepr record text_column lesson_id_column
                            person_id_column dataset_name)))))"

definition load_from_dataset ::
  "(string \<Rightarrow> 'v) \<Rightarrow> (rat \<Rightarrow> string) \<Rightarrow> 'v rag_system \<Rightarrow> string \<Rightarrow> pydict list \<Rightarrow> string \<Rightarrow>
   string option \<Rightarrow> string option \<Rightarrow> int \<Rightarrow> int \<Rightarrow> string option \<Rightarrow>
   (error + 'v rag_system) option" where
  "load_from_dataset embed_text frepr s dataset_path dataset text_column lesson_id_column
     person_id_column chunk_size chunk_overlap dataset_name =
     (if \<not> (endswith dataset_path ''.json'' \<or> endswith dataset_path ''.jsonl'' \<or>
             endswith dataset_path ''.csv'')
      then Some (Inl ValueError)
      else case process_records frepr dataset_path text_column lesson_id_column
                  person_id_column chunk_size chunk_overlap dataset_name dataset [] [] of
             None \<Rightarrow> None
           | Some (Inl e) \<Rightarrow> Some (Inl e)
           | Some (Inr (docs, metadata_list)) \<Rightarrow>
               Some (add_documents embed_text s docs (Some metadata_list)))"

subsection \<open>Sequences of ingestion calls\<close>

text \<open>
  Both methods raise before their first assignment to the store, so a call that raises
  leaves the store as it was. \<open>ingest\<close> gives the store after one call has returned or
  raised, \<open>None\<close> when the call never returns.
\<close>

datatype ingest_call =
  AddDocuments "string list" "pydict list option"
| LoadFromDataset string "pydict list" string "string option" "string option" int int
    "string option"

fun ingest ::
  "(string \<Rightarrow> 'v) \<Rightarrow> (rat \<Rightarrow> string) \<Rightarrow> 'v rag_system \<Rightarrow> ingest_call \<Rightarrow> 'v rag_system option" where
  "ingest embed_text frepr s (AddDocuments docs metadata_arg) =
     Some (case add_documents embed_text s docs metadata_arg of
             Inl e \<Rightarrow> s | Inr s' \<Rightarrow> s')"
| "ingest embed_text frepr s
     (LoadFromDataset dataset_path dataset text_column lesson_id_column person_id_column
        chunk_size chunk_overlap dataset_name) =
     (case load_from_dataset embed_text frepr s dataset_path dataset text_column
             lesson_id_column person_id_column chunk_size chunk_overlap dataset_name of
        None \<Rightarrow> None
      | Some (Inl e) \<Rightarrow> Some s
      | Some (Inr s') \<Rightarrow> Some s')"

fun ingest_all ::
  "(string \<Rightarrow> 'v) \<Rightarrow> (rat \<Rightarrow> string) \<Rightarrow> 'v rag_system \<Rightarrow> ingest_call list \<Rightarrow>
   'v rag_system option" where
  "ingest_all embed_text frepr s [] = Some s"
| "ingest_all embed_text frepr s (c # calls) =
     (case ingest embed_text frepr s c of
        None \<Rightarrow> None
      | Some s' \<Rightarrow> ingest_all embed_text frepr s' calls)"

subsection \<open>\<open>RAGSystem.retrieve\<close>\<close>

text \<open>
  The filter arguments are optional strings, \<open>filter_metadata\<close> an optional dictionary,
  here the list of its items. A filter is applied when its argument is true as a
  condition (neither \<open>None\<close> nor empty).
\<close>

definition filtered_out ::
  "pydict \<Rightarrow> string option \<Rightarrow> string option \<Rightarrow> (string \<times> pyval) list option \<Rightarrow> string option \<Rightarrow>
   bool" where
  "filtered_out meta lesson_id person_id filter_metadata dataset_name =
     (if given dataset_name \<and>
         \<not> py_eq (dict_get meta ''dataset_name'' PNone) (PStr (the dataset_name)) then True
      else if given lesson_id \<and>
         \<not> py_eq (dict_get meta ''lesson_id'' PNone) (PStr (the lesson_id)) then True
      else if given person_id \<and>
         \<not> py_eq (dict_get meta ''person_id'' PNone) (PStr (the person_id)) then True
      else (case filter_metadata of
              None \<Rightarrow> False
            | Some items \<Rightarrow>
                items \<noteq> [] \<and>
                \<not> list_all (\<lambda>(key, v). py_eq (dict_get meta key PNone) v) items))"

text \<open>The number of candidates asked of the index.\<close>

definition search_k ::
  "'v rag_system \<Rightarrow> int \<Rightarrow> string option \<Rightarrow> string option \<Rightarrow> string option \<Rightarrow> int" where
  "search_k s k lesson_id person_id dataset_name =
     min (if given dataset_name \<or> given lesson_id \<or> given person_id then k * 3 else k)
         (int (length (documents s)))"

text \<open>
  The loop over the candidates, with \<open>results\<close> as accumulator; \<open>self.documents[idx]\<close>
  and \<open>self.metadata[idx]\<close> are Python's indexing.
\<close>

fun retrieve_loop ::
  "'v rag_system \<Rightarrow> int \<Rightarrow> string option \<Rightarrow> string option \<Rightarrow> (string \<times> pyval) list option \<Rightarrow>
   string option \<Rightarrow> ('d \<times> int) list \<Rightarrow> (string \<times> pydict \<times> 'd) list \<Rightarrow>
   error + (string \<times> pydict \<times> 'd) list" where
  "retrieve_loop s k lesson_id person_id filter_metadata dataset_name [] results =
     Inr results"
| "retrieve_loop s k lesson_id person_id filter_metadata dataset_name
     ((distance, i) # candidates) results =
     (case py_index (documents s) i of
        Inl e \<Rightarrow> Inl e
      | Inr doc \<Rightarrow>
          (case py_index (metadata s) i of
             Inl e \<Rightarrow> Inl e
           | Inr meta \<Rightarrow>
               (if filtered_out meta lesson_id person_id filter_metadata dataset_name
                then retrieve_loop s k lesson_id person_id filter_metadata dataset_name
                       candidates results
                else (let results' = results @ [(doc, meta, distance)]
                      in if k \<le> int (length results') then Inr results'
                         else retrieve_loop s k lesson_id person_id filter_metadata
                                dataset_name candidates results'))))"

definition retrieve ::
  "(string \<Rightarrow> 'v) \<Rightarrow> ('v \<Rightarrow> 'v \<Rightarrow> 'd::linorder) \<Rightarrow> 'd \<Rightarrow> 'v rag_system \<Rightarrow> string \<Rightarrow> int \<Rightarrow>
   string option \<Rightarrow> string option \<Rightarrow> (string \<times> pyval) list option \<Rightarrow> string option \<Rightarrow>
   error + (string \<times> pydict \<times> 'd) list" where
  "retrieve embed_text metric far s query k lesson_id person_id filter_metadata dataset_name =
     (if length (documents s) = 0 then Inr []
      else (let query_embedding = embed_text query
            in case index_search metric far (index s) query_embedding
                      (search_k s k lesson_id person_id dataset_name) of
                 Inl e \<Rightarrow> Inl e
               | Inr candidates \<Rightarrow>
                   retrieve_loop s k lesson_id person_id filter_metadata dataset_name
                     candidates []))"

subsection \<open>\<open>RAGSystem.load_index\<close>\<close>

text \<open>
  The two artifacts as read from disk: the index of \<open>faiss.read_index\<close> and the unpickled
  dictionary with its keys \<open>documents\<close>, \<open>metadata\<close>, \<open>dimension\<close> and, optionally,
  \<open>embedding_model\<close>. Errors of reading the files are outside the model.
\<close>

record saved_data =
  saved_documents :: "string list"
  saved_metadata :: "pydict list"
  saved_dimension :: int
  saved_embedding_model :: "string option"

text \<open>
  The fields are assigned first; \<open>RuntimeError\<close> is raised afterwards, when
  \<open>SENTENCE_TRANSFORMERS_AVAILABLE\<close> is false. The result is the error raised, if any,
  and the store as the call leaves it.
\<close>

definition load_index ::
  "bool \<Rightarrow> 'v rag_system \<Rightarrow> 'v index_flat \<Rightarrow> saved_data \<Rightarrow> error option \<times> 'v rag_system" where
  "load_index sentence_transformers_available s index_file data =
     (let s' = s\<lparr>index := index_file,
                 documents := saved_documents data,
                 metadata := saved_metadata data,
                 dimension := saved_dimension data,
                 embedding_model_name :=
                   (case saved_embedding_model data of
                      None \<Rightarrow> ''sentence-transformers/all-MiniLM-L6-v2''
                    | Some m \<Rightarrow> m)\<rparr>
      in if \<not> sentence_transformers_available then (Some RuntimeError, s')
         else (None, s'))"

section \<open>The trend narrative of \<open>RAGSystem._process_climate_csv\<close>\<close>

text \<open>
  The \<open>if abs(temp_change) < 0.5\<close> statement that builds \<open>trend_text\<close>. The means are
  finite floats, \<open>temp_change\<close> is the float the source computes as
  \<open>late_avg - early_avg\<close>, and \<open>early_year\<close>, \<open>late_year\<close> are the two \<open>strftime('%Y')\<close>
  strings.
\<close>

definition trend_text :: "string \<Rightarrow> rat \<Rightarrow> rat \<Rightarrow> rat \<Rightarrow> string \<Rightarrow> string \<Rightarrow> string" where
  "trend_text country early_avg late_avg temp_change early_year late_year =
     (if \<bar>temp_change\<bar> < 1 / 2 then
        ''Temperature trend analysis for '' @ country @
        '': Temperatures have remained relatively stable, with an average change of '' @
        fmt2f temp_change @ degC @ '' between the early period (average '' @
        fmt2f early_avg @ degC @ '') and late period (average '' @
        fmt2f late_avg @ degC @ '').''
      else
        (let direction = (if temp_change > 0 then ''increased'' else ''decreased'')
         in ''Temperature trend analysis for '' @ country @
            '': Temperatures have '' @ direction @ '' by '' @
            fmt2f \<bar>temp_change\<bar> @ degC @
            '' over the recorded period, from an early average of '' @
            fmt2f early_avg @ degC @ '' to a later average of '' @
            fmt2f late_avg @ degC @ ''. This change occurred between '' @
            early_year @ '' and '' @ late_year @ ''.''))"

section \<open>Notions used in the statements\<close>


subsection \<open>The records that are kept, and their chunks\<close>

text \<open>
  A record is kept when its text is a string that is not empty, not made of whitespace
  only and not \<open>nan\<close>; its chunks are what \<open>_chunk_text\<close> returns for that text.
\<close>

definition record_kept :: "(rat \<Rightarrow> string) \<Rightarrow> string \<Rightarrow> string \<Rightarrow> pydict \<Rightarrow> bool" where
  "record_kept frepr dataset_path text_column record =
     (case record_text frepr dataset_path record text_column of
        Inr (PStr t) \<Rightarrow> t \<noteq> [] \<and> strip t \<noteq> [] \<and> t \<noteq> ''nan''
      | _ \<Rightarrow> False)"

definition record_chunks ::
  "(rat \<Rightarrow> string) \<Rightarrow> string \<Rightarrow> string \<Rightarrow> int \<Rightarrow> int \<Rightarrow> pydict \<Rightarrow> string list" where
  "record_chunks frepr dataset_path text_column chunk_size chunk_overlap record =
     (case record_text frepr dataset_path record text_column of
        Inr (PStr t) \<Rightarrow>
          (case chunk_text t chunk_size chunk_overlap of
             None \<Rightarrow> []
           | Some chunks \<Rightarrow> chunks)
      | _ \<Rightarrow> [])"

subsection \<open>The entries a call is to add\<close>

text \<open>
  A record can be read when neither its text nor the test for skipping it raises an
  error. The entries of a record are its chunks, each paired with the metadata of the
  record.
\<close>

definition record_readable :: "(rat \<Rightarrow> string) \<Rightarrow> string \<Rightarrow> string \<Rightarrow> pydict \<Rightarrow> bool" where
  "record_readable frepr dataset_path text_column record =
     (case record_text frepr dataset_path record text_column of
        Inl e \<Rightarrow> False
      | Inr v \<Rightarrow> (case skip_text v of Inl e \<Rightarrow> False | Inr b \<Rightarrow> True))"

definition record_entries ::
  "(rat \<Rightarrow> string) \<Rightarrow> string \<Rightarrow> string \<Rightarrow> string option \<Rightarrow> string option \<Rightarrow> int \<Rightarrow> int \<Rightarrow>
   string option \<Rightarrow> pydict \<Rightarrow> (string \<times> pydict) list" where
  "record_entries frepr dataset_path text_column lesson_id_column person_id_column
     chunk_size chunk_overlap dataset_name record =
     map (\<lambda>chunk. (chunk, record_meta frepr record text_column lesson_id_column
                           person_id_column dataset_name))
       (record_chunks frepr dataset_path text_column chunk_size chunk_overlap record)"

text \<open>
  The logical entries (document, metadata) of one ingestion call, in order:
  \<open>add_documents\<close> is to add its documents, each with its own metadata record (an empty one
  when none are given), and nothing when the two lists differ in length;
  \<open>load_from_dataset\<close> is to add the entries of the kept records, and nothing when the
  extension is not supported or a record cannot be read.
\<close>

fun call_entries :: "(rat \<Rightarrow> string) \<Rightarrow> ingest_call \<Rightarrow> (string \<times> pydict) list" where
  "call_entries frepr (AddDocuments docs None) = map (\<lambda>doc. (doc, Map.empty)) docs"
| "call_entries frepr (AddDocuments docs (Some metas)) =
     (if length docs = length metas then zip docs metas else [])"
| "call_entries frepr
     (LoadFromDataset dataset_path dataset text_column lesson_id_column person_id_column
        chunk_size chunk_overlap dataset_name) =
     (if (endswith dataset_path ''.json'' \<or> endswith dataset_path ''.jsonl'' \<or>
          endswith dataset_path ''.csv'') \<and>
         list_all (record_readable frepr dataset_path text_column) dataset
      then concat (map (record_entries frepr dataset_path text_column lesson_id_column
                          person_id_column chunk_size chunk_overlap dataset_name)
                     (filter (record_kept frepr dataset_path text_column) dataset))
      else [])"

subsection \<open>A small store for concrete runs\<close>

text \<open>
  An embedder that maps a text to its length, the distance of two lengths, and a store
  of three documents in two lessons.
\<close>

definition text_length :: "string \<Rightarrow> int" where
  "text_length t = int (length t)"

definition gap :: "int \<Rightarrow> int \<Rightarrow> int" where
  "gap a b = \<bar>a - b\<bar>"

definition example_store :: "int rag_system" where
  "example_store =
     \<lparr>embedding_model_name = ''m'', dimension = 1,
      index = \<lparr>idx_d = 1, idx_vectors = [1, 2, 4]\<rparr>,
      documents = [''a'', ''bb'', ''cccc''],
      metadata = [[''lesson_id'' \<mapsto> PStr ''x''], [''lesson_id'' \<mapsto> PStr ''y''],
                  [''lesson_id'' \<mapsto> PStr ''x'']]\<rparr>"

subsection \<open>What a trend narrative says\<close>

text \<open>
  Every trend narrative starts \<open>Temperature trend analysis for <country>: Temperatures
  have\<close>; \<open>trend_phrase\<close> is what follows.
\<close>

definition trend_phrase :: "string \<Rightarrow> string \<Rightarrow> string" where
  "trend_phrase country narrative =
     drop (length (''Temperature trend analysis for '' @ country @ '': Temperatures have ''))
       narrative"

subsection \<open>Two artifacts that do not fit each other\<close>

text \<open>
  An index file of one vector of dimension 128, and a data file of two documents that
  records the dimension 384.
\<close>

definition mismatched_index :: "int index_flat" where
  "mismatched_index = \<lparr>idx_d = 128, idx_vectors = [1]\<rparr>"

definition mismatched_data :: saved_data where
  "mismatched_data =
     \<lparr>saved_documents = [''a'', ''b''], saved_metadata = [Map.empty, Map.empty],
      saved_dimension = 384, saved_embedding_model = None\<rparr>"

subsection \<open>The two records of the scenario\<close>





subsection \<open>A record and three calls for a concrete run\<close>

definition zealand_record :: pydict where
  "zealand_record = [''text'' \<mapsto> PStr ''Hello world.'', ''Country'' \<mapsto> PStr ''New Zealand'']"

text \<open>
  \<open>add_documents\<close> without metadata, \<open>add_documents\<close> with too few metadata records
  (which raises), and \<open>load_from_dataset\<close> on a JSON dataset of one record.
\<close>

definition example_calls :: "ingest_call list" where
  "example_calls =
     [AddDocuments [''alpha''] None,
      AddDocuments [''beta''] (Some []),
      LoadFromDataset ''data.json'' [zealand_record] ''text'' None None 500 50 None]"

section \<open>Properties of the chunker\<close>

lemma rfind_from_bounds:
  "0 \<le> i \<Longrightarrow>
   rfind_from i s c = - 1 \<or> (i \<le> rfind_from i s c \<and> rfind_from i s c < i + int (length s))"
proof (induction s arbitrary: i)
  case Nil
  then show ?case by simp
next
  case (Cons x xs)
  from Cons.IH[of "i + 1"] Cons.prems show ?case
    by (auto simp: Let_def)
qed

lemma rfind_less_length: "rfind s c < int (length s)"
  using rfind_from_bounds[of 0 s c] by (auto simp: rfind_def)

lemma length_py_slice_window: "0 \<le> n \<Longrightarrow> int (length (py_slice s a (a + n))) \<le> n"
  by (auto simp: py_slice_def Let_def min_def max_def)

text \<open>A window never ends beyond \<open>start + chunk_size\<close>.\<close>

lemma chunk_window_end_le:
  assumes "0 \<le> chunk_size"
  shows "snd (chunk_window t chunk_size start) \<le> start + chunk_size"
proof -
  let ?chunk = "py_slice t start (start + chunk_size)"
  have "rfind ?chunk (CHR ''.'') < chunk_size" "rfind ?chunk (CHR 0x0A) < chunk_size"
    using rfind_less_length[of ?chunk] length_py_slice_window[OF assms, of t start]
    by (smt (verit))+
  then show ?thesis
    by (auto simp: chunk_window_def Let_def)
qed

text \<open>
  With \<open>0 \<le> chunk_size \<le> chunk_overlap\<close> the next \<open>start\<close> is never beyond the current
  one, so a loop that is inside the text stays inside it: it returns nothing.
\<close>

lemma chunk_loop_stalls:
  assumes "chunk_loop t chunk_size chunk_overlap start chunks = Some y"
  shows "\<not> (0 \<le> chunk_size \<and> chunk_size \<le> chunk_overlap \<and> start < int (length t))"
proof (rule chunk_loop.raw_induct[where P = "\<lambda>t chunk_size chunk_overlap start chunks y.
         \<not> (0 \<le> chunk_size \<and> chunk_size \<le> chunk_overlap \<and> start < int (length t))",
         OF _ assms])
  fix f t chunk_size chunk_overlap start and chunks y :: "string list"
  assume IH: "\<And>t chunk_size chunk_overlap start chunks y.
       f t chunk_size chunk_overlap start chunks = Some y \<Longrightarrow>
       \<not> (0 \<le> chunk_size \<and> chunk_size \<le> chunk_overlap \<and> start < int (length t))"
    and step: "(if start < int (length t)
         then case chunk_window t chunk_size start of
              (chunk, endpos) \<Rightarrow>
                f t chunk_size chunk_overlap (endpos - chunk_overlap) (chunks @ [strip chunk])
         else Some chunks) = Some y"
  show "\<not> (0 \<le> chunk_size \<and> chunk_size \<le> chunk_overlap \<and> start < int (length t))"
  proof
    assume a: "0 \<le> chunk_size \<and> chunk_size \<le> chunk_overlap \<and> start < int (length t)"
    obtain c e where w: "chunk_window t chunk_size start = (c, e)"
      by (cases "chunk_window t chunk_size start")
    with chunk_window_end_le[of chunk_size t start] a have "e \<le> start + chunk_size"
      by simp
    with a have lt: "e - chunk_overlap < int (length t)" by simp
    from step a w
    have "f t chunk_size chunk_overlap (e - chunk_overlap) (chunks @ [strip c]) = Some y"
      by simp
    from IH[OF this] a lt show False by simp
  qed
qed

lemma chunk_text_loops_forever:
  assumes "t \<noteq> []" "0 \<le> chunk_size" "chunk_size \<le> chunk_overlap"
  shows "chunk_text t chunk_size chunk_overlap = None"
proof (cases "chunk_text t chunk_size chunk_overlap")
  case (Some y)
  then show ?thesis
    using chunk_loop_stalls[of t chunk_size chunk_overlap 0 "[]" y] assms
    by (simp add: chunk_text_def)
qed simp

text \<open>
  C4. The claim: with \<open>chunk_overlap \<ge> chunk_size\<close> and a non-empty text, \<open>_chunk_text\<close>
  raises a configuration error. The source has no such check; for the text \<open>hello\<close>
  with \<open>chunk_size = 10\<close> and \<open>chunk_overlap = 10\<close> the loop appends the chunk \<open>hello\<close>,
  sets \<open>start\<close> back to \<open>0\<close>, and never returns.
\<close>

theorem chunk_text_overlap_not_rejected: "chunk_text ''hello'' 10 10 = None"
  by (rule chunk_text_loops_forever) simp_all

text \<open>
  The window of \<open>aaaaaa.aaaa\<close> at \<open>start = 0\<close> with \<open>chunk_size = 10\<close> is cut after the
  full stop at index 6, so \<open>end = 7\<close>.
\<close>

lemma window_cut_at_6: "chunk_window ''aaaaaa.aaaa'' 10 0 = (''aaaaaa.'', 7)"
  by (simp add: chunk_window_def py_slice_def rfind_def Let_def)

lemma chunk_loop_stalls_at_0:
  assumes "chunk_loop t chunk_size chunk_overlap start chunks = Some y"
  shows "\<not> (t = ''aaaaaa.aaaa'' \<and> chunk_size = 10 \<and> chunk_overlap = 7 \<and> start = 0)"
proof (rule chunk_loop.raw_induct[where P = "\<lambda>t chunk_size chunk_overlap start chunks y.
         \<not> (t = ''aaaaaa.aaaa'' \<and> chunk_size = 10 \<and> chunk_overlap = 7 \<and> start = 0)",
         OF _ assms])
  fix f t chunk_size chunk_overlap start and chunks y :: "string list"
  assume IH: "\<And>t chunk_size chunk_overlap start chunks y.
       f t chunk_size chunk_overlap start chunks = Some y \<Longrightarrow>
       \<not> (t = ''aaaaaa.aaaa'' \<and> chunk_size = 10 \<and> chunk_overlap = 7 \<and> start = 0)"
    and step: "(if start < int (length t)
         then case chunk_window t chunk_size start of
              (chunk, endpos) \<Rightarrow>
                f t chunk_size chunk_overlap (endpos - chunk_overlap) (chunks @ [strip chunk])
         else Some chunks) = Some y"
  show "\<not> (t = ''aaaaaa.aaaa'' \<and> chunk_size = 10 \<and> chunk_overlap = 7 \<and> start = 0)"
  proof
    assume a: "t = ''aaaaaa.aaaa'' \<and> chunk_size = 10 \<and> chunk_overlap = 7 \<and> start = 0"
    with step have "f ''aaaaaa.aaaa'' 10 7 0 (chunks @ [strip ''aaaaaa.'']) = Some y"
      by (simp add: window_cut_at_6)
    from IH[OF this] show False by simp
  qed
qed

text \<open>
  C5. The claim: with \<open>0 \<le> chunk_overlap < chunk_size\<close> the start offset advances on
  every iteration and \<open>_chunk_text\<close> returns. For the text \<open>aaaaaa.aaaa\<close> with
  \<open>chunk_size = 10\<close> and \<open>chunk_overlap = 7\<close> the first window is cut after the full stop
  at index 6, \<open>end\<close> is 7, and the next \<open>start\<close> is \<open>7 - 7 = 0\<close> again: the call never
  returns.
\<close>

theorem chunk_text_stalls_within_precondition: "chunk_text ''aaaaaa.aaaa'' 10 7 = None"
proof (cases "chunk_text ''aaaaaa.aaaa'' 10 7")
  case (Some y)
  then show ?thesis
    using chunk_loop_stalls_at_0[of "''aaaaaa.aaaa''" 10 7 0 "[]" y]
    by (simp add: chunk_text_def)
qed simp

text \<open>
  C6. The claim: a full stop or newline at or after the midpoint of the window makes
  the cut. In the text \<open>aaaaa.aaaaaaaa\<close> with \<open>chunk_size = 10\<close> the full stop is at
  index 5, the midpoint of the first window, and the source's test \<open>5 > 10 * 0.5\<close>
  fails: the first chunk is the whole window, not \<open>aaaaa.\<close>.
\<close>

theorem chunk_text_midpoint_not_cut:
  "chunk_text ''aaaaa.aaaaaaaa'' 10 0 = Some [''aaaaa.aaaa'', ''aaaa'']"
  by (simp add: chunk_text_def chunk_loop.simps chunk_window_def py_slice_def rfind_def
      Let_def strip_def isspace_def whitespace_def)

text \<open>A text that fits into one window, overlap included, is one chunk.\<close>

lemma chunk_text_short:
  assumes "t \<noteq> []" "int (length t) \<le> chunk_size" "int (length t) \<le> chunk_size - chunk_overlap"
  shows "chunk_text t chunk_size chunk_overlap = Some [strip t]"
proof -
  have w: "chunk_window t chunk_size 0 = (t, chunk_size)"
    using assms by (simp add: chunk_window_def py_slice_def Let_def)
  show ?thesis
    unfolding chunk_text_def
    apply (subst chunk_loop.simps)
    apply (simp add: w assms)
    apply (subst chunk_loop.simps)
    using assms apply simp
    done
qed

text \<open>
  When the overlap is below the chunk size and at most half of it (rounded up), every
  iteration moves \<open>start\<close> forward, and the loop returns.
\<close>

lemma chunk_window_advances:
  assumes "chunk_overlap < chunk_size" "2 * chunk_overlap \<le> chunk_size + 1"
  shows "start < snd (chunk_window t chunk_size start) - chunk_overlap"
  using assms by (auto simp: chunk_window_def Let_def)

lemma chunk_loop_returns:
  assumes "chunk_overlap < chunk_size" "2 * chunk_overlap \<le> chunk_size + 1"
  shows "\<exists>y. chunk_loop t chunk_size chunk_overlap start chunks = Some y"
proof (induction "nat (int (length t) - start)" arbitrary: start chunks rule: less_induct)
  case less
  show ?case
  proof (cases "start < int (length t)")
    case False
    then show ?thesis by (subst chunk_loop.simps) simp
  next
    case True
    obtain c e where w: "chunk_window t chunk_size start = (c, e)"
      by (cases "chunk_window t chunk_size start")
    with chunk_window_advances[OF assms, of start t] have "start < e - chunk_overlap"
      by simp
    with True have "nat (int (length t) - (e - chunk_overlap)) < nat (int (length t) - start)"
      by simp
    from less[OF this, of "chunks @ [strip c]"] True w show ?thesis
      by (subst chunk_loop.simps) simp
  qed
qed

lemma chunk_text_returns:
  assumes "chunk_overlap < chunk_size" "2 * chunk_overlap \<le> chunk_size + 1"
  shows "\<exists>chunks. chunk_text t chunk_size chunk_overlap = Some chunks"
  unfolding chunk_text_def by (rule chunk_loop_returns[OF assms])

section \<open>The parallel arrays\<close>

text \<open>
  What the loop over the records returns: it returns lists only when every record can
  be read, and then it has appended the entries of the kept records, texts to
  \<open>documents\<close> and metadata to \<open>metadata_list\<close>.
\<close>

lemma process_records_entries:
  assumes "process_records frepr dataset_path text_column lesson_id_column person_id_column
             chunk_size chunk_overlap dataset_name dataset docs metadata_list
           = Some (Inr (docs', metadata_list'))"
  shows "list_all (record_readable frepr dataset_path text_column) dataset \<and>
         docs' = docs @ map fst (concat (map (record_entries frepr dataset_path text_column
                    lesson_id_column person_id_column chunk_size chunk_overlap dataset_name)
                  (filter (record_kept frepr dataset_path text_column) dataset))) \<and>
         metadata_list' = metadata_list @ map snd (concat (map (record_entries frepr
                    dataset_path text_column lesson_id_column person_id_column chunk_size
                    chunk_overlap dataset_name)
                  (filter (record_kept frepr dataset_path text_column) dataset)))"
  using assms
proof (induction dataset arbitrary: docs metadata_list)
  case Nil
  then show ?case by simp
next
  case (Cons r dataset)
  show ?case
  proof (cases "record_text frepr dataset_path r text_column")
    case (Inl e)
    with Cons.prems show ?thesis by simp
  next
    case (Inr text_v)
    note rt = this
    show ?thesis
    proof (cases "skip_text text_v")
      case (Inl e)
      with Cons.prems rt show ?thesis by simp
    next
      case (Inr skip)
      note sk = this
      from rt sk have readable: "record_readable frepr dataset_path text_column r"
        by (simp add: record_readable_def)
      show ?thesis
      proof (cases skip)
        case True
        with sk have "\<not> record_kept frepr dataset_path text_column r"
          by (cases text_v) (auto simp: record_kept_def rt)
        with Cons.prems rt sk True Cons.IH[of docs metadata_list] readable show ?thesis
          by simp
      next
        case False
        with sk obtain t where t: "text_v = PStr t" "t \<noteq> []" "strip t \<noteq> []" "t \<noteq> ''nan''"
          by (cases text_v) (auto split: if_splits)
        then have kept: "record_kept frepr dataset_path text_column r"
          by (simp add: record_kept_def rt)
        show ?thesis
        proof (cases "chunk_text t chunk_size chunk_overlap")
          case None
          with Cons.prems rt sk False t show ?thesis by simp
        next
          case (Some chunks)
          let ?m = "record_meta frepr r text_column lesson_id_column person_id_column
                      dataset_name"
          from Some have re: "record_entries frepr dataset_path text_column lesson_id_column
                     person_id_column chunk_size chunk_overlap dataset_name r
                   = map (\<lambda>chunk. (chunk, ?m)) chunks"
            by (simp add: record_entries_def record_chunks_def rt t)
          have fs: "map fst (map (\<lambda>chunk. (chunk, ?m)) chunks) = chunks"
            by (simp add: comp_def)
          have sn: "map snd (map (\<lambda>chunk. (chunk, ?m)) chunks) = replicate (length chunks) ?m"
            by (simp add: comp_def map_replicate_const)
          from Cons.prems rt sk False t Some
          have "process_records frepr dataset_path text_column lesson_id_column
                  person_id_column chunk_size chunk_overlap dataset_name dataset
                  (docs @ chunks) (metadata_list @ replicate (length chunks) ?m)
                = Some (Inr (docs', metadata_list'))"
            by simp
          from Cons.IH[OF this] kept readable show ?thesis
            by (simp add: re fs sn del: map_map)
        qed
      qed
    qed
  qed
qed

lemma process_records_raises:
  assumes "process_records frepr dataset_path text_column lesson_id_column person_id_column
             chunk_size chunk_overlap dataset_name dataset docs metadata_list
           = Some (Inl e)"
  shows "\<not> list_all (record_readable frepr dataset_path text_column) dataset"
  using assms
proof (induction dataset arbitrary: docs metadata_list)
  case Nil
  then show ?case by simp
next
  case (Cons r dataset)
  show ?case
  proof (cases "record_readable frepr dataset_path text_column r")
    case False
    then show ?thesis by simp
  next
    case True
    then obtain text_v skip where rt: "record_text frepr dataset_path r text_column = Inr text_v"
      and sk: "skip_text text_v = Inr skip"
      by (auto simp: record_readable_def split: sum.splits)
    from Cons.prems rt sk
    have "\<exists>docs2 metas2. process_records frepr dataset_path text_column lesson_id_column
                  person_id_column chunk_size chunk_overlap dataset_name dataset
                  docs2 metas2 = Some (Inl e)"
      by (cases skip) (auto split: option.splits)
    with Cons.IH show ?thesis by auto
  qed
qed

text \<open>One call appends its entries to the three structures, position by position.\<close>

lemma add_documents_entries:
  assumes "add_documents embed_text s docs metadata_arg = Inr s'"
  shows "documents s' = documents s @ map fst (call_entries frepr (AddDocuments docs metadata_arg)) \<and>
         metadata s' = metadata s @ map snd (call_entries frepr (AddDocuments docs metadata_arg)) \<and>
         idx_vectors (index s') = idx_vectors (index s) @
           map (embed_text \<circ> fst) (call_entries frepr (AddDocuments docs metadata_arg))"
proof (cases metadata_arg)
  case None
  with assms show ?thesis
    by (auto simp: add_documents_def index_add_def Let_def comp_def map_replicate_const
        split: if_splits)
next
  case (Some metas)
  with assms have len: "length docs = length metas"
    by (auto simp: add_documents_def Let_def split: if_splits)
  then have "map fst (zip docs metas) = docs" "map snd (zip docs metas) = metas"
    "map (embed_text \<circ> fst) (zip docs metas) = map embed_text docs"
    by (simp_all add: map_fst_zip map_snd_zip flip: map_map)
  with assms Some len show ?thesis
    by (auto simp: add_documents_def index_add_def Let_def split: if_splits)
qed

lemma add_documents_raises:
  assumes "add_documents embed_text s docs metadata_arg = Inl e"
  shows "call_entries frepr (AddDocuments docs metadata_arg) = []"
  using assms
  by (cases metadata_arg)
     (auto simp: add_documents_def index_add_def Let_def split: if_splits)

lemma ingest_entries:
  assumes "ingest embed_text frepr s c = Some s'"
  shows "documents s' = documents s @ map fst (call_entries frepr c) \<and>
         metadata s' = metadata s @ map snd (call_entries frepr c) \<and>
         idx_vectors (index s') = idx_vectors (index s) @
           map (embed_text \<circ> fst) (call_entries frepr c)"
proof (cases c)
  case (AddDocuments docs metadata_arg)
  show ?thesis
  proof (cases "add_documents embed_text s docs metadata_arg")
    case (Inl e)
    with assms AddDocuments add_documents_raises[OF Inl, of frepr] show ?thesis by simp
  next
    case (Inr s2)
    with assms AddDocuments add_documents_entries[OF Inr, of frepr] show ?thesis by simp
  qed
next
  case (LoadFromDataset p ds tc lc pc cs ov dn)
  let ?ok = "endswith p ''.json'' \<or> endswith p ''.jsonl'' \<or> endswith p ''.csv''"
  let ?es = "concat (map (record_entries frepr p tc lc pc cs ov dn)
                     (filter (record_kept frepr p tc) ds))"
  show ?thesis
  proof (cases ?ok)
    case False
    with assms LoadFromDataset show ?thesis
      by (simp add: load_from_dataset_def)
  next
    case True
    show ?thesis
    proof (cases "process_records frepr p tc lc pc cs ov dn ds [] []")
      case None
      with assms LoadFromDataset True show ?thesis
        by (simp add: load_from_dataset_def)
    next
      case (Some res)
      show ?thesis
      proof (cases res)
        case (Inl e)
        with Some process_records_raises[of frepr p tc lc pc cs ov dn ds "[]" "[]" e]
        have "call_entries frepr c = []"
          by (simp add: LoadFromDataset)
        moreover from assms LoadFromDataset True Some Inl have "s' = s"
          by (simp add: load_from_dataset_def)
        ultimately show ?thesis by simp
      next
        case (Inr pair)
        obtain docs metas where pair: "pair = (docs, metas)" by (cases pair)
        from process_records_entries[of frepr p tc lc pc cs ov dn ds "[]" "[]" docs metas]
          Some Inr pair
        have rd: "list_all (record_readable frepr p tc) ds"
          and d: "docs = map fst ?es" and m: "metas = map snd ?es"
          by simp_all
        from rd True have ce: "call_entries frepr c = ?es"
          by (simp add: LoadFromDataset)
        have ld: "load_from_dataset embed_text frepr s p ds tc lc pc cs ov dn
                  = Some (add_documents embed_text s docs (Some metas))"
          using True Some Inr pair by (simp add: load_from_dataset_def)
        have zp: "zip docs metas = ?es"
          unfolding d m by (simp add: zip_map_fst_snd)
        show ?thesis
        proof (cases "add_documents embed_text s docs (Some metas)")
          case (Inl e)
          from d m have "length docs = length metas" by simp
          with zp have "call_entries frepr (AddDocuments docs (Some metas)) = ?es"
            by simp
          with add_documents_raises[OF Inl, of frepr] have "?es = []"
            by simp
          moreover from assms LoadFromDataset ld Inl have "s' = s" by simp
          ultimately show ?thesis by (simp add: ce)
        next
          case (Inr s2)
          from d m have "length docs = length metas" by simp
          with zp have ce2: "call_entries frepr (AddDocuments docs (Some metas)) = ?es"
            by simp
          from assms LoadFromDataset ld Inr have "s' = s2" by simp
          with add_documents_entries[OF Inr, of frepr, unfolded ce2] show ?thesis
            by (simp add: ce)
        qed
      qed
    qed
  qed
qed

lemma ingest_all_entries:
  assumes "ingest_all embed_text frepr s calls = Some s'"
  shows "documents s' = documents s @ map fst (concat (map (call_entries frepr) calls)) \<and>
         metadata s' = metadata s @ map snd (concat (map (call_entries frepr) calls)) \<and>
         idx_vectors (index s') = idx_vectors (index s) @
           map (embed_text \<circ> fst) (concat (map (call_entries frepr) calls))"
  using assms
proof (induction calls arbitrary: s)
  case Nil
  then show ?case by simp
next
  case (Cons c calls)
  then obtain s1 where s1: "ingest embed_text frepr s c = Some s1"
    and rest: "ingest_all embed_text frepr s1 calls = Some s'"
    by (auto split: option.splits)
  from ingest_entries[OF s1] Cons.IH[OF rest] show ?case by simp
qed

text \<open>
  C1. After any sequence of calls of \<open>add_documents\<close> and \<open>load_from_dataset\<close> on a new
  store, \<open>documents\<close>, \<open>metadata\<close> and the index are equally long; position \<open>i\<close> of
  \<open>documents\<close> and of \<open>metadata\<close> hold the document and the metadata of the \<open>i\<close>-th entry
  the calls were to add, in the order of the calls, and position \<open>i\<close> of the index holds
  the embedding of that document; and every further call leaves what is stored where it
  is and appends its entries to the three of them in the same order.
\<close>

theorem ingest_keeps_arrays_parallel:
  assumes "ingest_all embed_text frepr (rag_init embedding_model model_dim) calls = Some s"
  shows "length (documents s) = length (metadata s) \<and>
         length (metadata s) = ntotal (index s) \<and>
         idx_vectors (index s) = map embed_text (documents s) \<and>
         zip (documents s) (metadata s) = concat (map (call_entries frepr) calls) \<and>
         (\<forall>c s'. ingest embed_text frepr s c = Some s' \<longrightarrow>
            documents s' = documents s @ map fst (call_entries frepr c) \<and>
            metadata s' = metadata s @ map snd (call_entries frepr c) \<and>
            idx_vectors (index s') = idx_vectors (index s) @
              map (embed_text \<circ> fst) (call_entries frepr c))"
proof -
  let ?es = "concat (map (call_entries frepr) calls)"
  from ingest_all_entries[OF assms]
  have d: "documents s = map fst ?es" and m: "metadata s = map snd ?es"
    and v: "idx_vectors (index s) = map (embed_text \<circ> fst) ?es"
    by (simp_all add: rag_init_def)
  have z: "zip (documents s) (metadata s) = ?es"
    unfolding d m by (simp add: zip_map_fst_snd)
  from d m v have "length (documents s) = length (metadata s)"
    "length (metadata s) = ntotal (index s)"
    "idx_vectors (index s) = map embed_text (documents s)"
    by (simp_all add: ntotal_def)
  with z ingest_entries[of embed_text frepr s] show ?thesis by blast
qed

text \<open>
  A run of the theorem on the three calls: the store holds the two entries of the first
  and the third call, each document beside its own metadata.
\<close>

lemma zealand_meta:
  "dict_get (record_meta frepr zealand_record ''text'' None None None) ''lesson_id'' PNone
     = PStr ''climate_new_zealand''"
  "dict_get (record_meta frepr zealand_record ''text'' None None None) ''person_id'' PNone
     = PStr ''student_1''"
  "dict_get (record_meta frepr zealand_record ''text'' None None None) ''dataset_name'' PNone
     = PStr ''default''"
  "dict_get (record_meta frepr zealand_record ''text'' None None None) ''country'' PNone
     = PStr ''New Zealand''"
  "dict_get (record_meta frepr zealand_record ''text'' None None None) ''Country'' PNone
     = PStr ''New Zealand''"
  "dict_get (record_meta frepr zealand_record ''text'' None None None) ''text'' PNone
     = PNone"
  by (simp_all add: record_meta_def zealand_record_def dict_get_def slug_def lower_def
      lower_char_def uppercase_def lowercase_def replace_def dom_def Let_def map_add_def)

lemma example_calls_entries:
  "concat (map (call_entries frepr) example_calls) =
     [(''alpha'', Map.empty),
      (''Hello world.'', record_meta frepr zealand_record ''text'' None None None)]"
  by (simp add: example_calls_def endswith_def record_readable_def record_kept_def
      record_entries_def record_chunks_def record_text_def dict_get_def zealand_record_def
      chunk_text_short strip_def isspace_def whitespace_def)

theorem ingest_keeps_arrays_parallel_witness:
  "\<exists>s. ingest_all text_length (\<lambda>x. ''0.0'') (rag_init ''m'' 1) example_calls = Some s \<and>
        documents s = [''alpha'', ''Hello world.''] \<and>
        idx_vectors (index s) = [5, 12] \<and>
        length (metadata s) = 2 \<and>
        map (\<lambda>meta. dict_get meta ''lesson_id'' PNone) (metadata s)
          = [PNone, PStr ''climate_new_zealand''] \<and>
        map (\<lambda>meta. dict_get meta ''person_id'' PNone) (metadata s)
          = [PNone, PStr ''student_1''] \<and>
        map (\<lambda>meta. dict_get meta ''dataset_name'' PNone) (metadata s)
          = [PNone, PStr ''default''] \<and>
        map (\<lambda>meta. dict_get meta ''country'' PNone) (metadata s)
          = [PNone, PStr ''New Zealand''] \<and>
        map (\<lambda>meta. dict_get meta ''text'' PNone) (metadata s) = [PNone, PNone]"
proof -
  have "\<exists>s. ingest_all text_length (\<lambda>x. ''0.0'') (rag_init ''m'' 1) example_calls = Some s"
    by (simp add: example_calls_def add_documents_def load_from_dataset_def endswith_def
        record_text_def dict_get_def zealand_record_def chunk_text_short Let_def
        strip_def isspace_def whitespace_def rag_init_def index_add_def)
  then obtain s where
    h: "ingest_all text_length (\<lambda>x. ''0.0'') (rag_init ''m'' 1) example_calls = Some s"
    by (rule exE)
  from ingest_keeps_arrays_parallel[OF h]
  have l: "length (documents s) = length (metadata s)"
    and v: "idx_vectors (index s) = map text_length (documents s)"
    and z: "zip (documents s) (metadata s) =
            [(''alpha'', Map.empty),
             (''Hello world.'', record_meta (\<lambda>x. ''0.0'') zealand_record ''text'' None None
                                  None)]"
    by (simp_all add: example_calls_entries)
  from l z have d: "documents s = [''alpha'', ''Hello world.'']"
    and m: "metadata s = [Map.empty,
              record_meta (\<lambda>x. ''0.0'') zealand_record ''text'' None None None]"
    using map_fst_zip[of "documents s" "metadata s"] map_snd_zip[of "documents s" "metadata s"]
    by simp_all
  have e: "dict_get Map.empty key PNone = PNone" for key
    by (simp add: dict_get_def)
  show ?thesis
    by (rule exI[of _ s]) (simp add: h d m v zealand_meta e text_length_def)
qed

section \<open>Retrieval\<close>











text \<open>
  A run of the theorem on the small store, with a \<open>lesson_id\<close> filter: with \<open>k = 1\<close> the
  nearest document of the lesson is returned, with \<open>k = 0\<close> the search raises.
\<close>

lemma upt3: "[0..<3] = [0, 1, 2]"
  by (simp add: upt_rec)

lemma ex_search: "index_search gap 1000 (index example_store) (text_length ''qqq'')
     (search_k example_store 1 (Some ''x'') None None) = Inr [(1, 1), (1, 2), (2, 0)]"
  by (simp add: index_search_def example_store_def ntotal_def gap_def upt3 search_k_def
      text_length_def)


text \<open>
  C3. The claim: \<open>3 * k\<close> candidates are searched whenever any filter is supplied,
  \<open>filter_metadata\<close> included. On the small store, \<open>retrieve\<close> with \<open>k = 1\<close> and only
  \<open>filter_metadata = {'lesson_id': 'x'}\<close> asks the index for one candidate, the
  document \<open>bb\<close> of lesson \<open>y\<close>, and returns nothing; with the \<open>lesson_id\<close> argument
  set as well it asks for three and finds \<open>cccc\<close>.
\<close>

theorem retrieve_extra_filter_searches_k:
  "search_k example_store 1 None None None = 1 \<and>
   retrieve text_length gap 1000 example_store ''qqq'' 1 None None
     (Some [(''lesson_id'', PStr ''x'')]) None = Inr [] \<and>
   retrieve text_length gap 1000 example_store ''qqq'' 1 (Some ''x'') None
     (Some [(''lesson_id'', PStr ''x'')]) None
     = Inr [(''cccc'', [''lesson_id'' \<mapsto> PStr ''x''], 1)]"
proof -
  have s1: "index_search gap 1000 (index example_store) (text_length ''qqq'')
     (search_k example_store 1 None None None) = Inr [(1, 1)]"
    by (simp add: index_search_def example_store_def ntotal_def gap_def upt3 search_k_def
        text_length_def)
  show ?thesis
    unfolding retrieve_def Let_def s1 ex_search
    by (simp add: filtered_out_def py_eq_def dict_get_def example_store_def search_k_def
        py_index_def)
qed

section \<open>The trend narrative\<close>

lemma drop_heading: "drop (length (a @ b @ c)) (a @ b @ c @ r) = r"
  by simp

text \<open>
  C7 as amended. The narrative says \<open>increased\<close> exactly when \<open>temp_change\<close> is at least
  \<open>0.5\<close>, \<open>decreased\<close> exactly when it is at most \<open>-0.5\<close>, and \<open>remained relatively
  stable\<close> exactly when its absolute value is below \<open>0.5\<close>.
\<close>

theorem trend_phrase_threshold:
  "(prefix ''increased'' (trend_phrase country
      (trend_text country early_avg late_avg temp_change early_year late_year))
      \<longleftrightarrow> 1 / 2 \<le> temp_change) \<and>
   (prefix ''decreased'' (trend_phrase country
      (trend_text country early_avg late_avg temp_change early_year late_year))
      \<longleftrightarrow> temp_change \<le> - (1 / 2)) \<and>
   (prefix ''remained relatively stable'' (trend_phrase country
      (trend_text country early_avg late_avg temp_change early_year late_year))
      \<longleftrightarrow> \<bar>temp_change\<bar> < 1 / 2)"
proof -
  let ?h = "''Temperature trend analysis for ''"
  let ?t = "'': Temperatures have ''"
  consider (stable) "\<bar>temp_change\<bar> < 1 / 2" | (up) "1 / 2 \<le> temp_change"
    | (down) "temp_change \<le> - (1 / 2)"
    by linarith
  then show ?thesis
  proof cases
    case stable
    then have "trend_text country early_avg late_avg temp_change early_year late_year
      = ?h @ country @ ?t @ ''remained relatively stable, with an average change of '' @
        fmt2f temp_change @ degC @ '' between the early period (average '' @
        fmt2f early_avg @ degC @ '') and late period (average '' @
        fmt2f late_avg @ degC @ '').''"
      by (simp add: trend_text_def)
    then have "trend_phrase country
         (trend_text country early_avg late_avg temp_change early_year late_year)
      = ''remained relatively stable, with an average change of '' @
        fmt2f temp_change @ degC @ '' between the early period (average '' @
        fmt2f early_avg @ degC @ '') and late period (average '' @
        fmt2f late_avg @ degC @ '').''"
      unfolding trend_phrase_def by (simp only: drop_heading)
    with stable show ?thesis by auto
  next
    case up
    then have "trend_text country early_avg late_avg temp_change early_year late_year
      = ?h @ country @ ?t @ ''increased by '' @
            fmt2f \<bar>temp_change\<bar> @ degC @
            '' over the recorded period, from an early average of '' @
            fmt2f early_avg @ degC @ '' to a later average of '' @
            fmt2f late_avg @ degC @ ''. This change occurred between '' @
            early_year @ '' and '' @ late_year @ ''.''"
      by (simp add: trend_text_def)
    then have "trend_phrase country
         (trend_text country early_avg late_avg temp_change early_year late_year)
      = ''increased by '' @
            fmt2f \<bar>temp_change\<bar> @ degC @
            '' over the recorded period, from an early average of '' @
            fmt2f early_avg @ degC @ '' to a later average of '' @
            fmt2f late_avg @ degC @ ''. This change occurred between '' @
            early_year @ '' and '' @ late_year @ ''.''"
      unfolding trend_phrase_def by (simp only: drop_heading)
    with up show ?thesis by auto
  next
    case down
    then have "trend_text country early_avg late_avg temp_change early_year late_year
      = ?h @ country @ ?t @ ''decreased by '' @
            fmt2f \<bar>temp_change\<bar> @ degC @
            '' over the recorded period, from an early average of '' @
            fmt2f early_avg @ degC @ '' to a later average of '' @
            fmt2f late_avg @ degC @ ''. This change occurred between '' @
            early_year @ '' and '' @ late_year @ ''.''"
      by (simp add: trend_text_def)
    then have "trend_phrase country
         (trend_text country early_avg late_avg temp_change early_year late_year)
      = ''decreased by '' @
            fmt2f \<bar>temp_change\<bar> @ degC @
            '' over the recorded period, from an early average of '' @
            fmt2f early_avg @ degC @ '' to a later average of '' @
            fmt2f late_avg @ degC @ ''. This change occurred between '' @
            early_year @ '' and '' @ late_year @ ''.''"
      unfolding trend_phrase_def by (simp only: drop_heading)
    with down show ?thesis by auto
  qed
qed

text \<open>
  C7 as claimed fails at an absolute difference of exactly \<open>0.5\<close>, which does not exceed
  \<open>0.5\<close>: for the means \<open>10.0\<close> and \<open>10.5\<close> the narrative says \<open>increased by 0.50\<close>,
  not \<open>remained relatively stable\<close>.
\<close>

theorem trend_at_half_degree_not_stable:
  "prefix ''increased by 0.50''
     (trend_phrase ''France'' (trend_text ''France'' 10 (21 / 2) (1 / 2) ''1900'' ''2000'')) \<and>
   \<not> prefix ''remained relatively stable''
     (trend_phrase ''France'' (trend_text ''France'' 10 (21 / 2) (1 / 2) ''1900'' ''2000'')) \<and>
   \<not> (1 / 2 < \<bar>1 / 2 :: rat\<bar>)"
  by (simp add: trend_phrase_def trend_text_def fmt2f_def round_half_even_def show_nat.simps
      digit_def degC_def)

section \<open>Loading a snapshot\<close>

text \<open>
  C8 as amended. \<open>load_index\<close> compares nothing: whatever the two artifacts hold, it
  raises an error exactly when \<open>sentence-transformers\<close> is unavailable, and the store
  then holds the index, the documents, the metadata and the dimension as they were read.
\<close>

theorem load_index_checks_nothing:
  "(fst (load_index sentence_transformers_available s index_file data) = None
      \<longleftrightarrow> sentence_transformers_available) \<and>
   index (snd (load_index sentence_transformers_available s index_file data)) = index_file \<and>
   documents (snd (load_index sentence_transformers_available s index_file data))
     = saved_documents data \<and>
   metadata (snd (load_index sentence_transformers_available s index_file data))
     = saved_metadata data \<and>
   dimension (snd (load_index sentence_transformers_available s index_file data))
     = saved_dimension data"
  by (simp add: load_index_def Let_def)

text \<open>
  C8 as claimed fails: an index of one vector of dimension 128 and a data file of two
  documents with dimension 384 are loaded without an error, and the store is left with
  two documents, one vector, and two different dimensions.
\<close>

theorem load_index_accepts_inconsistent_artifacts:
  "fst (load_index True (rag_init ''m'' 384) mismatched_index mismatched_data) = None \<and>
   length (documents (snd (load_index True (rag_init ''m'' 384) mismatched_index
                              mismatched_data))) = 2 \<and>
   ntotal (index (snd (load_index True (rag_init ''m'' 384) mismatched_index
                         mismatched_data))) = 1 \<and>
   dimension (snd (load_index True (rag_init ''m'' 384) mismatched_index mismatched_data))
     = 384 \<and>
   idx_d (index (snd (load_index True (rag_init ''m'' 384) mismatched_index
                        mismatched_data))) = 128"
  by (simp add: load_index_def Let_def ntotal_def mismatched_index_def mismatched_data_def)

section \<open>Which documents \<open>load_from_dataset\<close> stores\<close>

lemma skip_text_False_iff:
  "skip_text v = Inr False \<longleftrightarrow> (\<exists>t. v = PStr t \<and> t \<noteq> [] \<and> strip t \<noteq> [] \<and> t \<noteq> ''nan'')"
  by (cases v) auto

lemma process_records_documents:
  assumes "process_records frepr dataset_path text_column lesson_id_column person_id_column
             chunk_size chunk_overlap dataset_name dataset docs metadata_list
           = Some (Inr (docs', metadata_list'))"
  shows "docs' = docs @ concat (map (record_chunks frepr dataset_path text_column chunk_size
                                        chunk_overlap)
                                 (filter (record_kept frepr dataset_path text_column) dataset))"
  using assms
proof (induction dataset arbitrary: docs metadata_list)
  case Nil
  then show ?case by simp
next
  case (Cons r dataset)
  show ?case
  proof (cases "record_text frepr dataset_path r text_column")
    case (Inl e)
    with Cons.prems show ?thesis by simp
  next
    case (Inr text_v)
    note rt = this
    show ?thesis
    proof (cases "skip_text text_v")
      case (Inl e)
      with Cons.prems rt show ?thesis by simp
    next
      case (Inr skip)
      note sk = this
      show ?thesis
      proof (cases skip)
        case True
        with sk have "\<not> record_kept frepr dataset_path text_column r"
          by (cases text_v) (auto simp: record_kept_def rt)
        with Cons.prems rt sk True Cons.IH[of docs metadata_list] show ?thesis by simp
      next
        case False
        with sk obtain t where t: "text_v = PStr t" "t \<noteq> []" "strip t \<noteq> []" "t \<noteq> ''nan''"
          using skip_text_False_iff[of text_v] by auto
        then have kept: "record_kept frepr dataset_path text_column r"
          by (simp add: record_kept_def rt)
        show ?thesis
        proof (cases "chunk_text t chunk_size chunk_overlap")
          case None
          with Cons.prems rt sk False t show ?thesis by simp
        next
          case (Some chunks)
          then have rc: "record_chunks frepr dataset_path text_column chunk_size chunk_overlap r
                         = chunks"
            by (simp add: record_chunks_def rt t)
          let ?m = "record_meta frepr r text_column lesson_id_column person_id_column
                      dataset_name"
          from Cons.prems rt sk False t Some
          have "process_records frepr dataset_path text_column lesson_id_column
                  person_id_column chunk_size chunk_overlap dataset_name dataset
                  (docs @ chunks) (metadata_list @ replicate (length chunks) ?m)
                = Some (Inr (docs', metadata_list'))"
            by simp
          from Cons.IH[OF this] kept rc show ?thesis by simp
        qed
      qed
    qed
  qed
qed

text \<open>
  C10 as amended. When \<open>load_from_dataset\<close> returns, the documents it has appended are
  the chunks of the kept records, in the order of the dataset: a record whose text is
  empty, whitespace only or \<open>nan\<close> is skipped and contributes no document.
\<close>

theorem load_from_dataset_documents:
  assumes "load_from_dataset embed_text frepr s dataset_path dataset text_column
             lesson_id_column person_id_column chunk_size chunk_overlap dataset_name
           = Some (Inr s')"
  shows "documents s' =
           documents s @
           concat (map (record_chunks frepr dataset_path text_column chunk_size chunk_overlap)
                     (filter (record_kept frepr dataset_path text_column) dataset))"
proof -
  from assms obtain docs metadata_list where
    pr: "process_records frepr dataset_path text_column lesson_id_column person_id_column
           chunk_size chunk_overlap dataset_name dataset [] [] = Some (Inr (docs, metadata_list))"
    and ad: "add_documents embed_text s docs (Some metadata_list) = Inr s'"
    by (auto simp: load_from_dataset_def split: if_splits option.splits sum.splits)
  from ad have "documents s' = documents s @ docs"
    by (auto simp: add_documents_def Let_def split: if_splits sum.splits)
  with process_records_documents[OF pr] show ?thesis by simp
qed

text \<open>
  A run of the theorem: of three records, one with a blank text and one without a
  \<open>text\<close> field are skipped, and the store holds the one chunk of the third.
\<close>

theorem load_from_dataset_documents_witness:
  "\<exists>s'. load_from_dataset text_length (\<lambda>x. ''0.0'') (rag_init ''m'' 1) ''data.json''
          [[''text'' \<mapsto> PStr ''   ''], [''text'' \<mapsto> PStr ''Hello world.''], Map.empty]
          ''text'' None None 500 50 None = Some (Inr s') \<and>
        documents s' = [''Hello world.'']"
proof -
  have "\<exists>s'. load_from_dataset text_length (\<lambda>x. ''0.0'') (rag_init ''m'' 1) ''data.json''
          [[''text'' \<mapsto> PStr ''   ''], [''text'' \<mapsto> PStr ''Hello world.''], Map.empty]
          ''text'' None None 500 50 None = Some (Inr s')"
    by (simp add: add_documents_def load_from_dataset_def endswith_def record_text_def
        dict_get_def chunk_text_short Let_def
        strip_def isspace_def whitespace_def rag_init_def index_add_def)
  then obtain s' where h: "load_from_dataset text_length (\<lambda>x. ''0.0'') (rag_init ''m'' 1)
          ''data.json''
          [[''text'' \<mapsto> PStr ''   ''], [''text'' \<mapsto> PStr ''Hello world.''], Map.empty]
          ''text'' None None 500 50 None = Some (Inr s')"
    by blast
  from load_from_dataset_documents[OF h]
  have "documents s' = [''Hello world.'']"
    by (simp add: record_kept_def record_chunks_def record_text_def endswith_def dict_get_def
        chunk_text_short strip_def isspace_def whitespace_def rag_init_def)
  with h show ?thesis by blast
qed

text \<open>
  C10 as claimed fails: the text \<open>hello     world\<close> is not empty, and with
  \<open>chunk_size = 5\<close> and \<open>chunk_overlap = 0\<close> its middle window is five spaces, which
  \<open>strip\<close> turns into the empty string; the empty string is stored as a document.
\<close>

theorem load_from_dataset_stores_empty_chunk:
  "map_option (map_sum id documents)
     (load_from_dataset text_length (\<lambda>x. ''0.0'') (rag_init ''m'' 1) ''data.json''
        [[''text'' \<mapsto> PStr ''hello     world'']] ''text'' None None 5 0 None)
   = Some (Inr [''hello'', [], ''world''])"
  by (simp add: add_documents_def load_from_dataset_def endswith_def record_text_def
        dict_get_def chunk_text_def chunk_loop.simps chunk_window_def py_slice_def Let_def
        strip_def isspace_def whitespace_def rag_init_def index_add_def rfind_def)

section \<open>The scenario of the two country records\<close>







end
